theory Spec2Isabelle
  imports Main "HOL-Library.AList"
begin

section \<open>Python values, errors and dictionaries\<close>

text \<open>
  The module \<^verbatim>\<open>graphene/types/mutation.py\<close> is embedded. Exceptions are values of
  \<open>py_error\<close>; a dictionary is an association list in insertion order, read with
  \<open>map_of\<close> and iterated with \<open>map fst\<close>.
\<close>

datatype py_error =
    AssertionError string
  | TypeError string
  | KeyError string
  | AttributeError string
  | Raised string

datatype pyval =
    PNone
  | PBool bool
  | PInt int
  | PStr string
  | PDict "(string \<times> pyval) list"
  | PObj string

type_synonym kwargs = "(string \<times> pyval) list"

type_synonym pyfun = "pyval list \<Rightarrow> kwargs \<Rightarrow> py_error + pyval"

text \<open>Python truthiness, as used by \<^verbatim>\<open>not x\<close>, \<^verbatim>\<open>x or y\<close> and \<^verbatim>\<open>assert x\<close>.\<close>

fun truthy :: "pyval \<Rightarrow> bool" where
  "truthy PNone = False"
| "truthy (PBool b) = b"
| "truthy (PInt i) = (i \<noteq> 0)"
| "truthy (PStr s) = (s \<noteq> [])"
| "truthy (PDict d) = (d \<noteq> [])"
| "truthy (PObj _) = True"

text \<open>
  An attribute of an argument object: something that can be called with one value
  (it returns or raises), or a value that cannot be called.
\<close>

datatype attr = Callable "pyval \<Rightarrow> py_error + pyval" | NonCallable pyval

datatype argument = Argument (arg_type: string) (arg_attrs: "(string \<times> attr) list")

type_synonym arguments = "(string \<times> argument) list"

text \<open>What can be found in a class body.\<close>

datatype attrval =
    AVal pyval
  | AFunc pyfun
  | AClass string
  | AField string

fun truthy_attr :: "attrval \<Rightarrow> bool" where
  "truthy_attr (AVal v) = truthy v"
| "truthy_attr (AFunc _) = True"
| "truthy_attr (AClass _) = True"
| "truthy_attr (AField _) = True"

text \<open>The calls a run makes, in order.\<close>

datatype event =
    ValidatorCalled string string pyval
  | MutateCalled "pyval list" kwargs

text \<open>\<^verbatim>\<open>d.update(e)\<close>: a key already in \<open>d\<close> keeps its place, a new key goes last.\<close>

definition dict_update :: "('k \<times> 'v) list \<Rightarrow> ('k \<times> 'v) list \<Rightarrow> ('k \<times> 'v) list" where
  "dict_update d e = fold (\<lambda>(k, v). AList.update k v) e d"

section \<open>run_validators and the generated resolver\<close>

text \<open>
  The inner loop of \<^verbatim>\<open>run_validators\<close> (lines 20-24), over the keys of one argument
  value. \<^verbatim>\<open>hasattr\<close> and \<^verbatim>\<open>__getattribute__\<close> read the argument's attribute table.
\<close>

fun validate_inputs ::
  "string \<Rightarrow> argument \<Rightarrow> kwargs \<Rightarrow> string list \<Rightarrow> event list \<times> (py_error + unit)" where
  "validate_inputs argument_name argument arg_value [] = ([], Inr ())"
| "validate_inputs argument_name argument arg_value (arg_input_name # rest) =
     (let validator_function_name = ''validate_'' @ arg_input_name in
      case map_of (arg_attrs argument) validator_function_name of
        None \<Rightarrow> validate_inputs argument_name argument arg_value rest
      | Some validator_function \<Rightarrow>
          (case map_of arg_value arg_input_name of
             None \<Rightarrow> ([], Inl (KeyError arg_input_name))
           | Some v \<Rightarrow>
               (case validator_function of
                  NonCallable _ \<Rightarrow> ([], Inl (TypeError ''object is not callable''))
                | Callable g \<Rightarrow>
                    (case g v of
                       Inl e \<Rightarrow> ([ValidatorCalled argument_name validator_function_name v], Inl e)
                     | Inr _ \<Rightarrow>
                         (case validate_inputs argument_name argument arg_value rest of
                            (tr, r) \<Rightarrow>
                              (ValidatorCalled argument_name validator_function_name v # tr, r))))))"

text \<open>
  The outer loop (lines 17-19). \<^verbatim>\<open>kwargs[argument_name]\<close> raises KeyError on a missing
  name; \<^verbatim>\<open>arg_value.keys()\<close> raises AttributeError on a value that is not a dictionary.
\<close>

fun run_validators_loop ::
  "arguments \<Rightarrow> kwargs \<Rightarrow> string list \<Rightarrow> event list \<times> (py_error + unit)" where
  "run_validators_loop arguments kwargs [] = ([], Inr ())"
| "run_validators_loop arguments kwargs (argument_name # rest) =
     (case map_of arguments argument_name of
        None \<Rightarrow> ([], Inl (KeyError argument_name))
      | Some argument \<Rightarrow>
          (case map_of kwargs argument_name of
             None \<Rightarrow> ([], Inl (KeyError argument_name))
           | Some arg_value \<Rightarrow>
               (case arg_value of
                  PDict d \<Rightarrow>
                    (case validate_inputs argument_name argument d (map fst d) of
                       (tr, Inl e) \<Rightarrow> (tr, Inl e)
                     | (tr, Inr _) \<Rightarrow>
                         (case run_validators_loop arguments kwargs rest of
                            (tr2, r) \<Rightarrow> (tr @ tr2, r)))
                | _ \<Rightarrow> ([], Inl (AttributeError ''keys'')))))"

definition run_validators :: "arguments \<Rightarrow> kwargs \<Rightarrow> event list \<times> (py_error + unit)" where
  "run_validators arguments kwargs = run_validators_loop arguments kwargs (map fst arguments)"

text \<open>
  Modelled from the spec: \<^verbatim>\<open>get_unbound_function\<close> lives in \<^verbatim>\<open>utils/get_unbound_function.py\<close>,
  which is not part of the embedded module. The spec describes the generated resolver as
  invoking the user's mutate function, so the helper hands back the function it is given.
\<close>

definition get_unbound_function :: "attrval \<Rightarrow> attrval" where
  "get_unbound_function func = func"

text \<open>Calling a class attribute: only a function can be called.\<close>

fun call_attr :: "attrval \<Rightarrow> pyval list \<Rightarrow> kwargs \<Rightarrow> event list \<times> (py_error + pyval)" where
  "call_attr (AFunc f) args kw = ([MutateCalled args kw], f args kw)"
| "call_attr _ args kw = ([], Inl (TypeError ''object is not callable''))"

text \<open>
  The closure of lines 130-132, over \<open>arguments\<close> and \<open>mutate\<close>. The payload is passed on
  as keyword arguments to \<^verbatim>\<open>run_validators(arguments, *args, **kwargs)\<close>, whose first
  parameter is called \<^verbatim>\<open>arguments\<close>: a payload key of that name is a TypeError at the call.
\<close>

definition resolver ::
  "arguments \<Rightarrow> attrval \<Rightarrow> pyval list \<Rightarrow> kwargs \<Rightarrow> event list \<times> (py_error + pyval)" where
  "resolver arguments mutate args kwargs =
     (if ''arguments'' \<in> set (map fst kwargs)
      then ([], Inl (TypeError ''run_validators() got multiple values for argument arguments''))
      else
        (case run_validators arguments kwargs of
           (tr, Inl e) \<Rightarrow> (tr, Inl e)
         | (tr, Inr _) \<Rightarrow>
             (case call_attr (get_unbound_function mutate) args kwargs of
                (tr2, r) \<Rightarrow> (tr @ tr2, r))))"

section \<open>Mutation definitions and their options\<close>

type_synonym class_dict = "(string \<times> attrval) list"

type_synonym field = string

type_synonym fields = "(string \<times> field) list"

text \<open>
  A mutation definition: \<^verbatim>\<open>cls.__name__\<close> and the \<^verbatim>\<open>__dict__\<close> of every class of
  \<^verbatim>\<open>cls.__mro__\<close>, the definition itself first.
\<close>

record mutation_class =
  cls_name :: string
  cls_mro :: "class_dict list"

text \<open>
  A value given in \<^verbatim>\<open>interfaces\<close>: a class, with its \<^verbatim>\<open>str\<close>, whether it is a subclass
  of \<^verbatim>\<open>Interface\<close> and its \<^verbatim>\<open>_meta.fields\<close>; or a value that is not a class, with its
  \<^verbatim>\<open>str\<close>.
\<close>

datatype iface =
    IClass string bool fields
  | INonClass string

datatype output_type = Given attrval | Self mutation_class

datatype resolver_fn = Explicit attrval | Generated arguments attrval

record mutation_options =
  meta_fields :: "fields option"
  meta_interfaces :: "iface list"
  meta_output :: "output_type option"
  meta_resolver :: "resolver_fn option"
  meta_arguments :: "arguments option"
  meta_description :: "string option"

text \<open>
  \<^verbatim>\<open>MutationOptions(cls)\<close>: the class attributes of lines 27-31. The base class
  \<^verbatim>\<open>ObjectTypeOptions\<close> is outside the embedded module; its \<^verbatim>\<open>fields\<close> and
  \<^verbatim>\<open>description\<close> start out unset.
\<close>

definition MutationOptions :: "mutation_class \<Rightarrow> mutation_options" where
  "MutationOptions cls =
     \<lparr>meta_fields = None, meta_interfaces = [], meta_output = None,
      meta_resolver = None, meta_arguments = None, meta_description = None\<rparr>"

text \<open>\<^verbatim>\<open>getattr(cls, name, None)\<close>: the first class of the MRO that has the name.\<close>

fun getattr_mro :: "class_dict list \<Rightarrow> string \<Rightarrow> attrval option" where
  "getattr_mro [] name = None"
| "getattr_mro (d # ds) name =
     (case map_of d name of Some v \<Rightarrow> Some v | None \<Rightarrow> getattr_mro ds name)"

definition getattr_default :: "mutation_class \<Rightarrow> string \<Rightarrow> attrval" where
  "getattr_default cls name =
     (case getattr_mro (cls_mro cls) name of None \<Rightarrow> AVal PNone | Some v \<Rightarrow> v)"

section \<open>Building the options of a mutation\<close>

definition interface_message :: "string \<Rightarrow> string \<Rightarrow> string" where
  "interface_message name received =
     ''All interfaces of '' @ name @ '' must be a subclass of Interface. Received ''
       @ [CHR 0x22] @ received @ [CHR 0x22] @ ''.''"

text \<open>
  Lines 94-98. \<^verbatim>\<open>issubclass\<close> raises TypeError when its first argument is not a class.
\<close>

fun merge_interfaces :: "mutation_class \<Rightarrow> iface list \<Rightarrow> fields \<Rightarrow> py_error + fields" where
  "merge_interfaces cls [] flds = Inr flds"
| "merge_interfaces cls (IClass s is_interface ifields # rest) flds =
     (if is_interface then merge_interfaces cls rest (dict_update flds ifields)
      else Inl (AssertionError (interface_message (cls_name cls) s)))"
| "merge_interfaces cls (INonClass s # rest) flds =
     Inl (TypeError ''issubclass() arg 1 must be a class'')"

text \<open>
  Lines 102-104. \<^verbatim>\<open>yank_fields_from_attrs\<close> is defined outside the embedded module and
  is a parameter \<open>yank\<close>: from a class \<^verbatim>\<open>__dict__\<close> to the fields found in it.
\<close>

definition collect_fields :: "(class_dict \<Rightarrow> fields) \<Rightarrow> class_dict list \<Rightarrow> fields" where
  "collect_fields yank mro = fold (\<lambda>base flds. dict_update flds (yank base)) (rev mro) []"

definition deprecation_message :: "string \<Rightarrow> string" where
  "deprecation_message name =
     ''Please use '' @ name @ ''.Arguments instead of '' @ name @ ''.Input.''
       @ '' Input is now only used in ClientMutationID.'' @ [CHR 0x0A] @ ''Read more:''
       @ '' https://github.com/graphql-python/graphene/blob/v2.0.0/UPGRADE-v2.0.md#mutation-input''"

text \<open>
  Lines 107-124, returning the warnings emitted by \<^verbatim>\<open>warn_deprecation\<close> and the
  arguments. \<^verbatim>\<open>props\<close> is defined outside the embedded module and is a parameter: from
  a class to the dictionary of its attributes.
\<close>

definition resolve_arguments ::
  "(attrval \<Rightarrow> arguments) \<Rightarrow> mutation_class \<Rightarrow> arguments option \<Rightarrow> string list \<times> arguments" where
  "resolve_arguments props cls arguments =
     (case arguments of
        Some (a # as) \<Rightarrow> ([], a # as)
      | _ \<Rightarrow>
          (let input_class0 = getattr_default cls ''Arguments'';
               (warnings, input_class) =
                 (if \<not> truthy_attr input_class0
                  then (let input_class1 = getattr_default cls ''Input'' in
                        if truthy_attr input_class1
                        then ([deprecation_message (cls_name cls)], input_class1)
                        else ([], input_class1))
                  else ([], input_class0))
           in if truthy_attr input_class then (warnings, props input_class)
              else (warnings, [])))"

text \<open>Lines 126-132.\<close>

definition resolve_resolver ::
  "mutation_class \<Rightarrow> attrval \<Rightarrow> arguments \<Rightarrow> py_error + resolver_fn" where
  "resolve_resolver cls resolver0 arguments =
     (if \<not> truthy_attr resolver0
      then (let mutate = getattr_default cls ''mutate'' in
            if truthy_attr mutate then Inr (Generated arguments mutate)
            else Inl (AssertionError ''All mutations must define a mutate method in it''))
      else Inr (Explicit resolver0))"

text \<open>
  \<^verbatim>\<open>Mutation.__init_subclass_with_meta__\<close>, lines 88-142: the warnings emitted and
  either the error raised or the options as they are handed to the base class at line 144.
  The call of line 144 follows below, in \<open>Mutation_init_subclass_with_meta\<close>.
\<close>

definition init_subclass_with_meta ::
  "(class_dict \<Rightarrow> fields) \<Rightarrow> (attrval \<Rightarrow> arguments) \<Rightarrow> mutation_class \<Rightarrow> iface list \<Rightarrow>
   attrval \<Rightarrow> attrval \<Rightarrow> arguments option \<Rightarrow> mutation_options option \<Rightarrow>
   string list \<times> (py_error + mutation_options)" where
  "init_subclass_with_meta yank props cls interfaces resolver0 output0 arguments0 meta0 =
     (let meta = (case meta0 of None \<Rightarrow> MutationOptions cls | Some m \<Rightarrow> m);
          output = (if truthy_attr output0 then output0 else getattr_default cls ''Output'')
      in case merge_interfaces cls interfaces [] of
           Inl e \<Rightarrow> ([], Inl e)
         | Inr ifields \<Rightarrow>
             (let (flds, out) =
                    (if \<not> truthy_attr output
                     then (collect_fields yank (cls_mro cls), Self cls)
                     else (ifields, Given output));
                  (warnings, arguments) = resolve_arguments props cls arguments0
              in case resolve_resolver cls resolver0 arguments of
                   Inl e \<Rightarrow> (warnings, Inl e)
                 | Inr r \<Rightarrow>
                     (warnings,
                      Inr (meta\<lparr>meta_fields :=
                                   (case meta_fields meta of
                                      Some (f # fs) \<Rightarrow> Some (dict_update (f # fs) flds)
                                    | _ \<Rightarrow> Some flds),
                                 meta_interfaces := interfaces,
                                 meta_output := Some out,
                                 meta_resolver := Some r,
                                 meta_arguments := Some arguments\<rparr>))))"

text \<open>
  Line 144: the same options go on to the hook of the base class, with the remaining
  Meta options; \<^verbatim>\<open>interfaces\<close> is not among them. \<^verbatim>\<open>ObjectType\<close> is defined outside the
  embedded module, so its hook is a parameter \<open>base_hook\<close>, which returns the finished
  options or raises.
\<close>

type_synonym base_hook = "mutation_class \<Rightarrow> mutation_options \<Rightarrow> kwargs \<Rightarrow> py_error + mutation_options"

definition Mutation_init_subclass_with_meta ::
  "base_hook \<Rightarrow> (class_dict \<Rightarrow> fields) \<Rightarrow> (attrval \<Rightarrow> arguments) \<Rightarrow> mutation_class \<Rightarrow>
   iface list \<Rightarrow> attrval \<Rightarrow> attrval \<Rightarrow> arguments option \<Rightarrow> mutation_options option \<Rightarrow> kwargs \<Rightarrow>
   string list \<times> (py_error + mutation_options)" where
  "Mutation_init_subclass_with_meta base_hook yank props cls interfaces resolver0 output0
       arguments0 meta0 options =
     (case init_subclass_with_meta yank props cls interfaces resolver0 output0 arguments0 meta0 of
        (warnings, Inl e) \<Rightarrow> (warnings, Inl e)
      | (warnings, Inr meta) \<Rightarrow> (warnings, base_hook cls meta options))"

section \<open>Mounting the field\<close>

record field_descriptor =
  fd_type :: "output_type option"
  fd_args :: "arguments option"
  fd_resolver :: "resolver_fn option"
  fd_name :: "string option"
  fd_description :: "string option"
  fd_deprecation_reason :: "string option"
  fd_required :: bool

text \<open>\<^verbatim>\<open>Mutation.Field\<close>, lines 146-159, from \<^verbatim>\<open>cls._meta\<close>.\<close>

definition Mutation_Field ::
  "mutation_options \<Rightarrow> string option \<Rightarrow> string option \<Rightarrow> string option \<Rightarrow> bool \<Rightarrow> field_descriptor" where
  "Mutation_Field meta name description deprecation_reason required =
     \<lparr>fd_type = meta_output meta,
      fd_args = meta_arguments meta,
      fd_resolver = meta_resolver meta,
      fd_name = name,
      fd_description =
        (case description of Some (c # cs) \<Rightarrow> description | _ \<Rightarrow> meta_description meta),
      fd_deprecation_reason = deprecation_reason,
      fd_required = required\<rparr>"

text \<open>Invoking the resolver of a field, as the execution engine does.\<close>

fun call_resolver ::
  "resolver_fn \<Rightarrow> pyval list \<Rightarrow> kwargs \<Rightarrow> event list \<times> (py_error + pyval)" where
  "call_resolver (Generated arguments mutate) args kw = resolver arguments mutate args kw"
| "call_resolver (Explicit (AFunc f)) args kw = ([], f args kw)"
| "call_resolver (Explicit _) args kw = ([], Inl (TypeError ''object is not callable''))"

section \<open>The properties in the words of the specification, and example definitions\<close>

text \<open>
  Events that are calls of a validator.
\<close>

fun is_validator_event :: "event \<Rightarrow> bool" where
  "is_validator_event (ValidatorCalled _ _ _) = True"
| "is_validator_event (MutateCalled _ _) = False"

text \<open>
  The validator calls the specification promises for one argument value: for every
  sub-key, in order, one call of \<^verbatim>\<open>validate_<subkey>\<close> with the sub-value when the argument
  has that attribute, and nothing otherwise.
\<close>

definition expected_inputs :: "string \<Rightarrow> argument \<Rightarrow> kwargs \<Rightarrow> string list \<Rightarrow> event list" where
  "expected_inputs argument_name argument arg_value ks =
     concat (map (\<lambda>k. case map_of (arg_attrs argument) (''validate_'' @ k) of
                         None \<Rightarrow> []
                       | Some _ \<Rightarrow>
                           (case map_of arg_value k of
                              None \<Rightarrow> []
                            | Some v \<Rightarrow> [ValidatorCalled argument_name (''validate_'' @ k) v])) ks)"

text \<open>
  The promised calls for one declared argument name that the payload holds.
\<close>

definition expected_calls_for :: "arguments \<Rightarrow> kwargs \<Rightarrow> string \<Rightarrow> event list" where
  "expected_calls_for arguments kwargs n =
     (case (map_of arguments n, map_of kwargs n) of
        (Some argument, Some (PDict d)) \<Rightarrow> expected_inputs n argument d (map fst d)
      | _ \<Rightarrow> [])"

text \<open>
  The promised calls of a whole run, over the declared arguments in order.
\<close>

definition expected_calls :: "arguments \<Rightarrow> kwargs \<Rightarrow> event list" where
  "expected_calls arguments kwargs = concat (map (expected_calls_for arguments kwargs) (map fst arguments))"


text \<open>
  A payload in which every declared argument has a dictionary value and every validator
  that applies is callable and returns.
\<close>

definition input_accepted :: "argument \<Rightarrow> kwargs \<Rightarrow> string \<Rightarrow> bool" where
  "input_accepted argument arg_value k =
     (case map_of (arg_attrs argument) (''validate_'' @ k) of
        None \<Rightarrow> True
      | Some f \<Rightarrow>
          (case map_of arg_value k of
             None \<Rightarrow> False
           | Some v \<Rightarrow> (case f of Callable g \<Rightarrow> isl (g v) = False | NonCallable _ \<Rightarrow> False)))"

definition payload_accepted :: "arguments \<Rightarrow> kwargs \<Rightarrow> bool" where
  "payload_accepted arguments kwargs =
     list_all (\<lambda>n. case (map_of arguments n, map_of kwargs n) of
                       (Some argument, Some (PDict d)) \<Rightarrow> list_all (input_accepted argument d) (map fst d)
                     | _ \<Rightarrow> False) (map fst arguments)"

text \<open>
  The field a name has in the most derived class that declares it, the MRO being given
  with the definition first.
\<close>

fun derived_first :: "(class_dict \<Rightarrow> fields) \<Rightarrow> class_dict list \<Rightarrow> string \<Rightarrow> field option" where
  "derived_first yank [] name = None"
| "derived_first yank (d # ds) name =
     (case map_of (yank d) name of Some f \<Rightarrow> Some f | None \<Rightarrow> derived_first yank ds name)"

text \<open>
  Example definitions. A scraper that keeps the attributes that are fields, an attribute
  table for two inner classes, and the \<^verbatim>\<open>CreatePerson\<close> mutation of the class docstring.
\<close>

definition yank_fields_example :: "class_dict \<Rightarrow> fields" where
  "yank_fields_example d = concat (map (\<lambda>(k, v). case v of AField f \<Rightarrow> [(k, f)] | _ \<Rightarrow> []) d)"

definition props_example :: "attrval \<Rightarrow> arguments" where
  "props_example c =
     (case c of
        AClass n \<Rightarrow>
          (if n = ''Arguments'' then [(''name'', Argument ''String'' [])]
           else if n = ''Input'' then [(''title'', Argument ''String'' [])]
           else [])
      | _ \<Rightarrow> [])"

definition mutate_example :: pyfun where
  "mutate_example args kw = Inr (PObj ''CreatePerson(person, ok)'')"

definition CreatePerson :: mutation_class where
  "CreatePerson =
     \<lparr>cls_name = ''CreatePerson'',
      cls_mro = [[(''Arguments'', AClass ''Arguments''), (''ok'', AField ''Boolean''),
                  (''person'', AField ''Person''), (''mutate'', AFunc mutate_example)],
                 [], []]\<rparr>"

text \<open>
  An argument whose \<^verbatim>\<open>validate_email\<close> rejects the empty string, and a payload for it.
\<close>

definition check_email :: "pyval \<Rightarrow> py_error + pyval" where
  "check_email v = (case v of PStr (c # cs) \<Rightarrow> Inr PNone | _ \<Rightarrow> Inl (Raised ''invalid email''))"

definition user_arguments :: arguments where
  "user_arguments = [(''user'', Argument ''UserInput'' [(''validate_email'', Callable check_email)]),
                     (''team'', Argument ''TeamInput'' [])]"

definition user_payload :: kwargs where
  "user_payload = [(''user'', PDict [(''email'', PStr ''a@b.c''), (''age'', PInt 30)]),
                   (''team'', PDict [(''title'', PStr ''core'')])]"

text \<open>
  The fields of the options passed in as \<^verbatim>\<open>_meta\<close>, if any.
\<close>

definition prior_fields :: "mutation_options option \<Rightarrow> fields" where
  "prior_fields meta0 =
     (case meta0 of
        None \<Rightarrow> []
      | Some m0 \<Rightarrow> (case meta_fields m0 of None \<Rightarrow> [] | Some fs \<Rightarrow> fs))"

text \<open>
  More example definitions: a class that redeclares a field of its base, one with an
  \<^verbatim>\<open>Output\<close> class and both \<^verbatim>\<open>Arguments\<close> and \<^verbatim>\<open>Input\<close>, one with \<^verbatim>\<open>Input\<close> only, an
  interface with one field, and a class without a mutate function.
\<close>

definition DerivedMutation :: mutation_class where
  "DerivedMutation =
     \<lparr>cls_name = ''DerivedMutation'',
      cls_mro = [[(''ok'', AField ''Boolean''), (''mutate'', AFunc mutate_example)],
                 [(''ok'', AField ''String''), (''id'', AField ''ID'')],
                 []]\<rparr>"

definition PayloadMutation :: mutation_class where
  "PayloadMutation =
     \<lparr>cls_name = ''PayloadMutation'',
      cls_mro = [[(''Output'', AClass ''Payload''), (''ok'', AField ''Boolean''),
                  (''Arguments'', AClass ''Arguments''), (''Input'', AClass ''Input''),
                  (''mutate'', AFunc mutate_example)],
                 [], []]\<rparr>"

definition LegacyMutation :: mutation_class where
  "LegacyMutation =
     \<lparr>cls_name = ''LegacyMutation'',
      cls_mro = [[(''Input'', AClass ''Input''), (''mutate'', AFunc mutate_example)], [], []]\<rparr>"

definition Node :: iface where
  "Node = IClass ''Node'' True [(''id'', ''ID'')]"

definition NoMutate :: mutation_class where
  "NoMutate = \<lparr>cls_name = ''NoMutate'', cls_mro = [[(''ok'', AField ''Boolean'')], [], []]\<rparr>"




text \<open>
  A mutation whose \<^verbatim>\<open>Arguments\<close> class holds the argument with a validator, and the
  attribute table that goes with it.
\<close>

definition props_user :: "attrval \<Rightarrow> arguments" where
  "props_user c =
     (case c of AClass n \<Rightarrow> (if n = ''Arguments'' then user_arguments else []) | _ \<Rightarrow> [])"

definition CreateUser :: mutation_class where
  "CreateUser =
     \<lparr>cls_name = ''CreateUser'',
      cls_mro = [[(''Arguments'', AClass ''Arguments''), (''ok'', AField ''Boolean''),
                  (''mutate'', AFunc mutate_example)],
                 [], []]\<rparr>"

section \<open>Lemmas about the loops\<close>

lemma validate_inputs_events:
  "validate_inputs an a d ks = (tr, r) \<Longrightarrow> e \<in> set tr \<Longrightarrow> is_validator_event e"
  by (induction ks arbitrary: tr r)
     (auto simp: Let_def split: option.splits attr.splits sum.splits prod.splits)

lemma validate_inputs_ok:
  "validate_inputs an a d ks = (tr, Inr u) \<Longrightarrow> tr = expected_inputs an a d ks"
  by (induction ks arbitrary: tr)
     (auto simp: Let_def expected_inputs_def split: option.splits attr.splits sum.splits prod.splits)

lemma run_validators_loop_events:
  "run_validators_loop A K ns = (tr, r) \<Longrightarrow> e \<in> set tr \<Longrightarrow> is_validator_event e"
  by (induction ns arbitrary: tr r)
     (auto split: option.splits pyval.splits sum.splits prod.splits dest: validate_inputs_events)

lemma run_validators_loop_ok:
  "run_validators_loop A K ns = (tr, Inr u) \<Longrightarrow> tr = concat (map (expected_calls_for A K) ns)"
  by (induction ns arbitrary: tr)
     (auto simp: expected_calls_for_def split: option.splits pyval.splits sum.splits prod.splits dest: validate_inputs_ok)

lemma resolver_mutate_ran:
  assumes "resolver A m args K = (tr, r)" and "MutateCalled a k \<in> set tr"
  shows "tr = expected_calls A K @ [MutateCalled args K] \<and> a = args \<and> k = K"
proof -
  from assms have nk: "''arguments'' \<notin> set (map fst K)"
    by (auto simp: resolver_def split: if_splits)
  obtain t1 r1 where rv: "run_validators A K = (t1, r1)" by (cases "run_validators A K")
  have "\<And>e. e \<in> set t1 \<Longrightarrow> is_validator_event e"
    using rv run_validators_loop_events unfolding run_validators_def by blast
  from this [of "MutateCalled a k"] have ev: "MutateCalled a k \<notin> set t1" by auto
  show ?thesis
  proof (cases r1)
    case (Inl e)
    with assms nk rv ev show ?thesis by (auto simp: resolver_def)
  next
    case (Inr u)
    with rv have t1: "t1 = expected_calls A K"
      unfolding run_validators_def expected_calls_def by (auto dest: run_validators_loop_ok)
    from assms nk rv Inr ev t1 show ?thesis
      by (cases "get_unbound_function m") (auto simp: resolver_def get_unbound_function_def)
  qed
qed

lemma validate_inputs_accepted:
  "list_all (input_accepted a d) ks \<Longrightarrow> validate_inputs an a d ks = (expected_inputs an a d ks, Inr ())"
  by (induction ks)
     (auto simp: Let_def expected_inputs_def input_accepted_def
           split: option.splits attr.splits sum.splits prod.splits)

lemma run_validators_loop_accepted:
  "list_all (\<lambda>n. case (map_of A n, map_of K n) of
                       (Some argument, Some (PDict d)) \<Rightarrow> list_all (input_accepted argument d) (map fst d)
                     | _ \<Rightarrow> False) ns
   \<Longrightarrow> run_validators_loop A K ns = (concat (map (expected_calls_for A K) ns), Inr ())"
  by (induction ns)
     (auto simp: expected_calls_for_def validate_inputs_accepted split: option.splits pyval.splits)



lemma map_of_dict_update_rev:
  "map_of (dict_update d e) k = (case map_of (rev e) k of Some v \<Rightarrow> Some v | None \<Rightarrow> map_of d k)"
  unfolding dict_update_def
proof (induction e arbitrary: d)
  case Nil
  then show ?case by simp
next
  case (Cons x e)
  obtain a b where x: "x = (a, b)" by (cases x)
  show ?case
    by (simp add: x Cons.IH update_conv' map_add_def split: option.splits)
qed

lemma map_of_rev_distinct: "distinct (map fst e) \<Longrightarrow> map_of (rev e) = map_of e"
  by (subst map_of_inject_set) (simp_all add: rev_map [symmetric])

lemma map_of_dict_update:
  "distinct (map fst e) \<Longrightarrow>
   map_of (dict_update d e) k = (case map_of e k of Some v \<Rightarrow> Some v | None \<Rightarrow> map_of d k)"
  by (simp add: map_of_dict_update_rev map_of_rev_distinct)

lemma map_of_collect_fields_acc:
  assumes "\<forall>d\<in>set mro. distinct (map fst (yank d))"
  shows "map_of (fold (\<lambda>base flds. dict_update flds (yank base)) (rev mro) acc) name =
         (case derived_first yank mro name of Some f \<Rightarrow> Some f | None \<Rightarrow> map_of acc name)"
  using assms
  by (induction mro) (auto simp: map_of_dict_update split: option.splits)

lemma map_of_collect_fields:
  "\<forall>d\<in>set mro. distinct (map fst (yank d)) \<Longrightarrow>
   map_of (collect_fields yank mro) name = derived_first yank mro name"
  by (simp add: collect_fields_def map_of_collect_fields_acc split: option.splits)

lemma merge_interfaces_valid:
  "\<forall>i\<in>set interfaces. \<exists>s f. i = IClass s True f \<Longrightarrow> \<exists>g. merge_interfaces cls interfaces flds = Inr g"
  by (induction interfaces arbitrary: flds) auto

lemma merge_interfaces_first_bad:
  "\<forall>i\<in>set pre. \<exists>s f. i = IClass s True f \<Longrightarrow>
   merge_interfaces cls (pre @ i # post) flds = merge_interfaces cls (i # post) (fold (\<lambda>i flds. case i of IClass s b f \<Rightarrow> dict_update flds f | _ \<Rightarrow> flds) pre flds)"
  by (induction pre arbitrary: flds) auto

lemma distinct_dict_update:
  "distinct (map fst d) \<Longrightarrow> distinct (map fst (dict_update d e))"
  unfolding dict_update_def
  by (induction e arbitrary: d) (simp_all add: distinct_update case_prod_beta)

lemma distinct_collect_fields: "distinct (map fst (collect_fields yank mro))"
proof -
  have "distinct (map fst acc) \<Longrightarrow>
        distinct (map fst (fold (\<lambda>base flds. dict_update flds (yank base)) bs acc))" for bs acc
    by (induction bs arbitrary: acc) (simp_all add: distinct_dict_update)
  then show ?thesis by (simp add: collect_fields_def)
qed

lemma init_no_output:
  assumes "\<not> truthy_attr output0" "\<not> truthy_attr (getattr_default cls ''Output'')"
    and "init_subclass_with_meta yank props cls interfaces resolver0 output0 arguments0 meta0 = (w, Inr m)"
  shows "meta_output m = Some (Self cls)"
    and "meta_fields m = Some (if prior_fields meta0 = [] then collect_fields yank (cls_mro cls)
                               else dict_update (prior_fields meta0) (collect_fields yank (cls_mro cls)))"
  using assms
  by (auto simp: init_subclass_with_meta_def Let_def prior_fields_def MutationOptions_def
      split: sum.splits prod.splits option.splits list.splits)


lemma init_arguments:
  assumes "init_subclass_with_meta yank props cls interfaces resolver0 output0 arguments0 meta0 = (w, Inr m)"
  shows "(w, meta_arguments m) = (fst (resolve_arguments props cls arguments0),
                                  Some (snd (resolve_arguments props cls arguments0)))"
  using assms
  by (auto simp: init_subclass_with_meta_def Let_def split: sum.splits prod.splits)

lemma init_without_mutate:
  assumes "\<not> truthy_attr resolver0" and "\<not> truthy_attr (getattr_default cls ''mutate'')"
  shows "\<exists>e. snd (init_subclass_with_meta yank props cls interfaces resolver0 output0 arguments0 meta0) = Inl e"
  using assms
  by (auto simp: init_subclass_with_meta_def Let_def resolve_resolver_def split: sum.splits prod.splits)

lemma init_interfaces_valid:
  assumes "\<not> truthy_attr resolver0" and "merge_interfaces cls interfaces [] = Inr g"
  shows "truthy_attr (getattr_default cls ''mutate'') \<Longrightarrow>
           \<exists>m. snd (init_subclass_with_meta yank props cls interfaces resolver0 output0 arguments0 meta0) = Inr m
              \<and> meta_resolver m = Some (Generated (snd (resolve_arguments props cls arguments0))
                                                   (getattr_default cls ''mutate''))"
    and "\<not> truthy_attr (getattr_default cls ''mutate'') \<Longrightarrow>
           snd (init_subclass_with_meta yank props cls interfaces resolver0 output0 arguments0 meta0)
             = Inl (AssertionError ''All mutations must define a mutate method in it'')"
  using assms
  by (auto simp: init_subclass_with_meta_def Let_def resolve_resolver_def split: sum.splits prod.splits)


lemma Mutation_init_after:
  "init_subclass_with_meta yank props cls interfaces resolver0 output0 arguments0 meta0 = (w, Inr m)
   \<Longrightarrow> Mutation_init_subclass_with_meta base_hook yank props cls interfaces resolver0 output0
         arguments0 meta0 options = (w, base_hook cls m options)"
  by (simp add: Mutation_init_subclass_with_meta_def)

lemma generated_resolver_accepted:
  assumes "payload_accepted A kw" and "''arguments'' \<notin> set (map fst kw)"
  shows "call_resolver (Generated A (AFunc f)) args kw =
           (expected_calls A kw @ [MutateCalled args kw], f args kw)"
proof -
  from assms(1) have "run_validators A kw = (expected_calls A kw, Inr ())"
    unfolding run_validators_def expected_calls_def payload_accepted_def
    by (simp add: run_validators_loop_accepted)
  with assms(2) show ?thesis by (simp add: resolver_def get_unbound_function_def)
qed

section \<open>The claims\<close>

text \<open>
  Claim C1: every field of every declared interface is in the field set recorded on the
  options, whether or not an output type is given. The docstring of the class says the
  same: all fields from an interface are included. Without an output type line 102 sets
  \<open>fields\<close> to the empty dictionary again after the interfaces were merged. The run
  below is the docstring's \<^verbatim>\<open>CreatePerson\<close> with one interface \<open>Node\<close> that has a field
  \<open>id\<close>: construction succeeds and the recorded fields are \<open>ok\<close> and \<open>person\<close> only.
\<close>

theorem interface_fields_dropped_without_output:
  "init_subclass_with_meta yank_fields_example props_example CreatePerson [Node]
       (AVal PNone) (AVal PNone) None None =
     ([], Inr \<lparr>meta_fields = Some [(''ok'', ''Boolean''), (''person'', ''Person'')],
               meta_interfaces = [Node],
               meta_output = Some (Self CreatePerson),
               meta_resolver = Some (Generated [(''name'', Argument ''String'' [])] (AFunc mutate_example)),
               meta_arguments = Some [(''name'', Argument ''String'' [])],
               meta_description = None\<rparr>)
   \<and> Node = IClass ''Node'' True [(''id'', ''ID'')]
   \<and> map_of [(''ok'', ''Boolean''), (''person'', ''Person'')] ''id'' = None"
  by (simp add: init_subclass_with_meta_def MutationOptions_def getattr_default_def CreatePerson_def
      Node_def collect_fields_def dict_update_def yank_fields_example_def resolve_arguments_def
      props_example_def resolve_resolver_def)



text \<open>
  Claim C3: a definition without an output type (no Meta output, no \<^verbatim>\<open>Output\<close> attribute
  that is truthy) has itself as the output type of its options and of the mounted field,
  and its fields are collected over the MRO from the most basic class to the most
  derived: looking a name up gives the field of the most derived class that declares it
  (\<open>derived_first\<close>), and a field that the options held before only where no class
  declares the name. The fields found in one class body form a dictionary.
\<close>

theorem fields_from_mro_derived_wins:
  assumes "\<not> truthy_attr output0" and "\<not> truthy_attr (getattr_default cls ''Output'')"
    and "init_subclass_with_meta yank props cls interfaces resolver0 output0 arguments0 meta0 = (w, Inr m)"
    and "\<forall>d\<in>set (cls_mro cls). distinct (map fst (yank d))"
  shows "meta_output m = Some (Self cls)
         \<and> fd_type (Mutation_Field m name description deprecation_reason required) = Some (Self cls)
         \<and> (\<exists>fs. meta_fields m = Some fs
                \<and> (\<forall>n. map_of fs n =
                         (case derived_first yank (cls_mro cls) n of
                            Some f \<Rightarrow> Some f
                          | None \<Rightarrow> map_of (prior_fields meta0) n)))"
proof -
  note io = init_no_output [OF assms(1,2,3)]
  have look: "map_of (collect_fields yank (cls_mro cls)) n = derived_first yank (cls_mro cls) n" for n
    using assms(4) by (rule map_of_collect_fields)
  have "map_of (if prior_fields meta0 = [] then collect_fields yank (cls_mro cls)
                else dict_update (prior_fields meta0) (collect_fields yank (cls_mro cls))) n =
        (case derived_first yank (cls_mro cls) n of
           Some f \<Rightarrow> Some f
         | None \<Rightarrow> map_of (prior_fields meta0) n)" for n
    by (simp add: map_of_dict_update distinct_collect_fields look split: option.splits)
  with io show ?thesis by (simp add: Mutation_Field_def)
qed

theorem fields_from_mro_derived_wins_witness:
  "init_subclass_with_meta yank_fields_example props_example DerivedMutation []
       (AVal PNone) (AVal PNone) None None =
     ([], Inr \<lparr>meta_fields = Some [(''ok'', ''Boolean''), (''id'', ''ID'')],
               meta_interfaces = [],
               meta_output = Some (Self DerivedMutation),
               meta_resolver = Some (Generated [] (AFunc mutate_example)),
               meta_arguments = Some [],
               meta_description = None\<rparr>)
   \<and> derived_first yank_fields_example (cls_mro DerivedMutation) ''ok'' = Some ''Boolean''"
proof -
  have 1: "\<not> truthy_attr (AVal PNone)" by simp
  have 2: "\<not> truthy_attr (getattr_default DerivedMutation ''Output'')"
    by (simp add: getattr_default_def DerivedMutation_def)
  have 3: "init_subclass_with_meta yank_fields_example props_example DerivedMutation []
       (AVal PNone) (AVal PNone) None None =
     ([], Inr \<lparr>meta_fields = Some [(''ok'', ''Boolean''), (''id'', ''ID'')],
               meta_interfaces = [],
               meta_output = Some (Self DerivedMutation),
               meta_resolver = Some (Generated [] (AFunc mutate_example)),
               meta_arguments = Some [],
               meta_description = None\<rparr>)"
    by (simp add: init_subclass_with_meta_def MutationOptions_def getattr_default_def
        DerivedMutation_def collect_fields_def dict_update_def yank_fields_example_def
        resolve_arguments_def props_example_def resolve_resolver_def)
  have 4: "\<forall>d\<in>set (cls_mro DerivedMutation). distinct (map fst (yank_fields_example d))"
    by (simp add: DerivedMutation_def yank_fields_example_def)
  from fields_from_mro_derived_wins [OF 1 2 3 4] 3 show ?thesis
    by (simp add: DerivedMutation_def yank_fields_example_def)
qed




text \<open>
  Claim C5: without Meta arguments (none given, or an empty dictionary), the arguments
  of the options and of the mounted field are the attributes of the \<^verbatim>\<open>Arguments\<close> class
  when there is one; those of the \<^verbatim>\<open>Input\<close> class, with one deprecation warning, when
  only that one exists; and empty, without a warning, when neither exists.
\<close>

theorem arguments_from_inner_class:
  assumes "arguments0 = None \<or> arguments0 = Some []"
    and "init_subclass_with_meta yank props cls interfaces resolver0 output0 arguments0 meta0 = (w, Inr m)"
  shows "fd_args (Mutation_Field m name description deprecation_reason required) = meta_arguments m
         \<and> (truthy_attr (getattr_default cls ''Arguments'')
              \<longrightarrow> meta_arguments m = Some (props (getattr_default cls ''Arguments'')))
         \<and> (\<not> truthy_attr (getattr_default cls ''Arguments'') \<and> truthy_attr (getattr_default cls ''Input'')
              \<longrightarrow> meta_arguments m = Some (props (getattr_default cls ''Input''))
                  \<and> w = [deprecation_message (cls_name cls)])
         \<and> (\<not> truthy_attr (getattr_default cls ''Arguments'') \<and> \<not> truthy_attr (getattr_default cls ''Input'')
              \<longrightarrow> meta_arguments m = Some [] \<and> w = [])"
  using init_arguments [OF assms(2)] assms(1)
  by (auto simp: Mutation_Field_def resolve_arguments_def Let_def)

theorem arguments_from_inner_class_witness:
  "init_subclass_with_meta yank_fields_example props_example LegacyMutation []
       (AVal PNone) (AVal PNone) None None =
     ([deprecation_message ''LegacyMutation''],
      Inr \<lparr>meta_fields = Some [],
               meta_interfaces = [],
               meta_output = Some (Self LegacyMutation),
               meta_resolver = Some (Generated [(''title'', Argument ''String'' [])] (AFunc mutate_example)),
               meta_arguments = Some [(''title'', Argument ''String'' [])],
               meta_description = None\<rparr>)
   \<and> props_example (getattr_default LegacyMutation ''Input'') = [(''title'', Argument ''String'' [])]"
proof -
  have 1: "(None :: arguments option) = None \<or> (None :: arguments option) = Some []" by simp
  have 2: "init_subclass_with_meta yank_fields_example props_example LegacyMutation []
       (AVal PNone) (AVal PNone) None None =
     ([deprecation_message ''LegacyMutation''],
      Inr \<lparr>meta_fields = Some [],
               meta_interfaces = [],
               meta_output = Some (Self LegacyMutation),
               meta_resolver = Some (Generated [(''title'', Argument ''String'' [])] (AFunc mutate_example)),
               meta_arguments = Some [(''title'', Argument ''String'' [])],
               meta_description = None\<rparr>)"
    by (simp add: init_subclass_with_meta_def MutationOptions_def getattr_default_def
        LegacyMutation_def collect_fields_def dict_update_def yank_fields_example_def
        resolve_arguments_def props_example_def resolve_resolver_def)
  from arguments_from_inner_class [OF 1 2] 2 show ?thesis
    by (simp add: getattr_default_def LegacyMutation_def props_example_def)
qed

text \<open>
  Claim C6, amended: without an explicit resolver, a definition without a mutate function
  cannot be constructed; the error is the assertion error of line 128 when the interfaces
  are all interface classes, and otherwise that of the interface check of lines 94-97,
  which comes first. With a mutate function and such interfaces the hook of the mutation
  passes its checks and hands on to the base-class hook options whose resolver is the
  generated one over the resolved arguments and that mutate function. Called with a
  payload that its validators accept, that resolver makes the expected validator calls,
  then the one call of mutate, and returns what mutate returns; and in any run of it that
  calls mutate, those validator calls come first. As stated the claim fails at an
  interface that is not valid, as the last of the three theorems shows.
\<close>

theorem mutate_required_without_resolver:
  assumes "\<not> truthy_attr resolver0"
  shows "(\<not> truthy_attr (getattr_default cls ''mutate'') \<longrightarrow>
            (\<exists>e. snd (init_subclass_with_meta yank props cls interfaces resolver0 output0 arguments0 meta0)
                   = Inl e)
            \<and> ((\<forall>i\<in>set interfaces. \<exists>s f. i = IClass s True f) \<longrightarrow>
                 snd (init_subclass_with_meta yank props cls interfaces resolver0 output0 arguments0 meta0)
                   = Inl (AssertionError ''All mutations must define a mutate method in it'')))
         \<and> (truthy_attr (getattr_default cls ''mutate'')
              \<and> (\<forall>i\<in>set interfaces. \<exists>s f. i = IClass s True f) \<longrightarrow>
            (\<exists>m. snd (init_subclass_with_meta yank props cls interfaces resolver0 output0 arguments0 meta0)
                   = Inr m
                \<and> meta_resolver m = Some (Generated (snd (resolve_arguments props cls arguments0))
                                                     (getattr_default cls ''mutate''))
                \<and> snd (Mutation_init_subclass_with_meta base_hook yank props cls interfaces resolver0
                          output0 arguments0 meta0 options) = base_hook cls m options))
         \<and> (getattr_default cls ''mutate'' = AFunc f
              \<and> payload_accepted (snd (resolve_arguments props cls arguments0)) kw
              \<and> ''arguments'' \<notin> set (map fst kw) \<longrightarrow>
            call_resolver (Generated (snd (resolve_arguments props cls arguments0))
                                     (getattr_default cls ''mutate'')) args kw
              = (expected_calls (snd (resolve_arguments props cls arguments0)) kw
                   @ [MutateCalled args kw], f args kw))
         \<and> (call_resolver (Generated (snd (resolve_arguments props cls arguments0))
                                     (getattr_default cls ''mutate'')) args kw = (tr, r)
              \<and> MutateCalled a k \<in> set tr \<longrightarrow>
            tr = expected_calls (snd (resolve_arguments props cls arguments0)) kw
                   @ [MutateCalled args kw])"
proof (intro conjI impI)
  assume "\<not> truthy_attr (getattr_default cls ''mutate'')"
  then show "\<exists>e. snd (init_subclass_with_meta yank props cls interfaces resolver0 output0 arguments0 meta0)
                   = Inl e"
    by (rule init_without_mutate [OF assms])
next
  assume m: "\<not> truthy_attr (getattr_default cls ''mutate'')"
    and i: "\<forall>i\<in>set interfaces. \<exists>s f. i = IClass s True f"
  from merge_interfaces_valid [OF i] obtain g where "merge_interfaces cls interfaces [] = Inr g"
    by blast
  from init_interfaces_valid(2) [OF assms this m]
  show "snd (init_subclass_with_meta yank props cls interfaces resolver0 output0 arguments0 meta0)
          = Inl (AssertionError ''All mutations must define a mutate method in it'')" .
next
  assume h: "truthy_attr (getattr_default cls ''mutate'')
              \<and> (\<forall>i\<in>set interfaces. \<exists>s f. i = IClass s True f)"
  then have i: "\<forall>i\<in>set interfaces. \<exists>s f. i = IClass s True f" by simp
  from merge_interfaces_valid [OF i] obtain g where "merge_interfaces cls interfaces [] = Inr g"
    by blast
  from init_interfaces_valid(1) [OF assms this, of yank props output0 arguments0 meta0] h
  obtain m where m: "snd (init_subclass_with_meta yank props cls interfaces resolver0 output0
                           arguments0 meta0) = Inr m"
    and r: "meta_resolver m = Some (Generated (snd (resolve_arguments props cls arguments0))
                                                     (getattr_default cls ''mutate''))"
    by blast
  obtain w where "init_subclass_with_meta yank props cls interfaces resolver0 output0
                           arguments0 meta0 = (w, Inr m)"
    using m by (cases "init_subclass_with_meta yank props cls interfaces resolver0 output0
                           arguments0 meta0") simp
  from Mutation_init_after [OF this, of base_hook options]
  have "snd (Mutation_init_subclass_with_meta base_hook yank props cls interfaces resolver0
                          output0 arguments0 meta0 options) = base_hook cls m options" by simp
  with m r
  show "\<exists>m. snd (init_subclass_with_meta yank props cls interfaces resolver0 output0 arguments0 meta0)
                   = Inr m
                \<and> meta_resolver m = Some (Generated (snd (resolve_arguments props cls arguments0))
                                                     (getattr_default cls ''mutate''))
                \<and> snd (Mutation_init_subclass_with_meta base_hook yank props cls interfaces resolver0
                          output0 arguments0 meta0 options) = base_hook cls m options"
    by blast
next
  assume h: "getattr_default cls ''mutate'' = AFunc f
              \<and> payload_accepted (snd (resolve_arguments props cls arguments0)) kw
              \<and> ''arguments'' \<notin> set (map fst kw)"
  then have mu: "getattr_default cls ''mutate'' = AFunc f"
    and acc: "payload_accepted (snd (resolve_arguments props cls arguments0)) kw"
    and nk: "''arguments'' \<notin> set (map fst kw)" by simp_all
  show "call_resolver (Generated (snd (resolve_arguments props cls arguments0))
                                     (getattr_default cls ''mutate'')) args kw
              = (expected_calls (snd (resolve_arguments props cls arguments0)) kw
                   @ [MutateCalled args kw], f args kw)"
    unfolding mu by (rule generated_resolver_accepted [OF acc nk])
next
  assume "call_resolver (Generated (snd (resolve_arguments props cls arguments0))
                                     (getattr_default cls ''mutate'')) args kw = (tr, r)
              \<and> MutateCalled a k \<in> set tr"
  then show "tr = expected_calls (snd (resolve_arguments props cls arguments0)) kw
                   @ [MutateCalled args kw]"
    using resolver_mutate_ran by auto
qed

theorem mutate_required_without_resolver_witness:
  "snd (init_subclass_with_meta yank_fields_example props_user NoMutate [Node]
          (AVal PNone) (AVal PNone) None None)
     = Inl (AssertionError ''All mutations must define a mutate method in it'')
   \<and> (\<exists>m. snd (init_subclass_with_meta yank_fields_example props_user CreateUser [Node]
          (AVal PNone) (AVal PNone) None None) = Inr m
        \<and> meta_resolver m = Some (Generated user_arguments (AFunc mutate_example)))
   \<and> call_resolver (Generated user_arguments (AFunc mutate_example))
        [PObj ''root'', PObj ''info''] user_payload
      = ([ValidatorCalled ''user'' ''validate_email'' (PStr ''a@b.c''),
          MutateCalled [PObj ''root'', PObj ''info''] user_payload],
         Inr (PObj ''CreatePerson(person, ok)''))"
proof -
  have 1: "\<not> truthy_attr (AVal PNone)" by simp
  have 2: "\<not> truthy_attr (getattr_default NoMutate ''mutate'')"
    by (simp add: getattr_default_def NoMutate_def)
  have 3: "truthy_attr (getattr_default CreateUser ''mutate'')"
    by (simp add: getattr_default_def CreateUser_def)
  have 4: "\<forall>i\<in>set [Node]. \<exists>s f. i = IClass s True f" by (simp add: Node_def)
  have 5: "snd (resolve_arguments props_user CreateUser None) = user_arguments"
    by (simp add: resolve_arguments_def getattr_default_def CreateUser_def props_user_def)
  have 6: "getattr_default CreateUser ''mutate'' = AFunc mutate_example"
    by (simp add: getattr_default_def CreateUser_def)
  have 7: "payload_accepted user_arguments user_payload \<and> ''arguments'' \<notin> set (map fst user_payload)"
    by (simp add: payload_accepted_def input_accepted_def user_arguments_def user_payload_def
        check_email_def)
  have 8: "expected_calls user_arguments user_payload =
            [ValidatorCalled ''user'' ''validate_email'' (PStr ''a@b.c'')]"
    by (simp add: expected_calls_def expected_calls_for_def expected_inputs_def
        user_arguments_def user_payload_def)
  note t1 = mutate_required_without_resolver [OF 1, where cls = NoMutate
      and yank = yank_fields_example and props = props_user and interfaces = "[Node]"
      and ?output0.0 = "AVal PNone" and ?arguments0.0 = None and ?meta0.0 = None]
  note t2 = mutate_required_without_resolver [OF 1, where cls = CreateUser
      and yank = yank_fields_example and props = props_user and interfaces = "[Node]"
      and ?output0.0 = "AVal PNone" and ?arguments0.0 = None and ?meta0.0 = None
      and f = mutate_example and kw = user_payload and args = "[PObj ''root'', PObj ''info'']"]
  from t1 2 4
  have a: "snd (init_subclass_with_meta yank_fields_example props_user NoMutate [Node]
          (AVal PNone) (AVal PNone) None None)
     = Inl (AssertionError ''All mutations must define a mutate method in it'')" by blast
  from t2 3 4
  have "\<exists>m. snd (init_subclass_with_meta yank_fields_example props_user CreateUser [Node]
          (AVal PNone) (AVal PNone) None None) = Inr m
        \<and> meta_resolver m = Some (Generated (snd (resolve_arguments props_user CreateUser None))
                                                     (getattr_default CreateUser ''mutate''))" by blast
  then have b: "\<exists>m. snd (init_subclass_with_meta yank_fields_example props_user CreateUser [Node]
          (AVal PNone) (AVal PNone) None None) = Inr m
        \<and> meta_resolver m = Some (Generated user_arguments (AFunc mutate_example))"
    by (simp only: 5 6)
  from t2 6 7
  have "call_resolver (Generated (snd (resolve_arguments props_user CreateUser None))
                                     (getattr_default CreateUser ''mutate''))
          [PObj ''root'', PObj ''info''] user_payload
              = (expected_calls (snd (resolve_arguments props_user CreateUser None)) user_payload
                   @ [MutateCalled [PObj ''root'', PObj ''info''] user_payload],
                 mutate_example [PObj ''root'', PObj ''info''] user_payload)"
    by (simp only: 5) blast
  then have c: "call_resolver (Generated user_arguments (AFunc mutate_example))
        [PObj ''root'', PObj ''info''] user_payload
      = ([ValidatorCalled ''user'' ''validate_email'' (PStr ''a@b.c''),
          MutateCalled [PObj ''root'', PObj ''info''] user_payload],
         Inr (PObj ''CreatePerson(person, ok)''))"
    by (simp only: 5 6 8) (simp add: mutate_example_def)
  from a b c show ?thesis by blast
qed

theorem missing_mutate_other_error_counterexample:
  "\<not> truthy_attr (AVal PNone)
   \<and> \<not> truthy_attr (getattr_default NoMutate ''mutate'')
   \<and> init_subclass_with_meta yank_fields_example props_example NoMutate [INonClass ''Node'']
       (AVal PNone) (AVal PNone) None None
     = ([], Inl (TypeError ''issubclass() arg 1 must be a class''))
   \<and> truthy_attr (getattr_default CreatePerson ''mutate'')
   \<and> init_subclass_with_meta yank_fields_example props_example CreatePerson [IClass ''Person'' False []]
       (AVal PNone) (AVal PNone) None None
     = ([], Inl (AssertionError (interface_message ''CreatePerson'' ''Person'')))"
  by (simp add: init_subclass_with_meta_def getattr_default_def NoMutate_def CreatePerson_def)

text \<open>
  Claim C7, amended: when the first declared interface that is not a subclass of
  \<^verbatim>\<open>Interface\<close> is a class, construction fails with an assertion error whose message
  contains the name of the mutation class and the text of the offending class, and
  nothing else has happened; when it is not a class at all, the subclass test itself
  raises a TypeError. As stated, for every value that is not a subclass, the claim fails
  at a value that is not a class, as the last of the three theorems shows.
\<close>

theorem non_interface_class_rejected:
  assumes "\<forall>i\<in>set pre. \<exists>s f. i = IClass s True f"
  shows "init_subclass_with_meta yank props cls (pre @ IClass s False f # post)
             resolver0 output0 arguments0 meta0
           = ([], Inl (AssertionError (interface_message (cls_name cls) s)))
         \<and> (\<exists>a b c. interface_message (cls_name cls) s = a @ cls_name cls @ b @ s @ c)
         \<and> init_subclass_with_meta yank props cls (pre @ INonClass s # post)
             resolver0 output0 arguments0 meta0
           = ([], Inl (TypeError ''issubclass() arg 1 must be a class''))"
proof -
  have "interface_message (cls_name cls) s =
          ''All interfaces of '' @ cls_name cls
            @ ('' must be a subclass of Interface. Received '' @ [CHR 0x22]) @ s @ ([CHR 0x22] @ ''.'')"
    by (simp add: interface_message_def)
  then have "\<exists>a b c. interface_message (cls_name cls) s = a @ cls_name cls @ b @ s @ c" by blast
  then show ?thesis
    by (simp add: init_subclass_with_meta_def Let_def merge_interfaces_first_bad [OF assms])
qed

theorem non_interface_class_rejected_witness:
  "init_subclass_with_meta yank_fields_example props_example CreatePerson
       [Node, IClass ''Person'' False [], INonClass ''x'']
       (AVal PNone) (AVal PNone) None None
     = ([], Inl (AssertionError (interface_message ''CreatePerson'' ''Person'')))"
proof -
  have 1: "\<forall>i\<in>set [Node]. \<exists>s f. i = IClass s True f" by (simp add: Node_def)
  from non_interface_class_rejected [OF 1, of yank_fields_example props_example CreatePerson
      "''Person''" "[]" "[INonClass ''x'']" "AVal PNone" "AVal PNone" None None]
  show ?thesis by (simp add: CreatePerson_def)
qed

theorem non_class_interface_counterexample:
  "init_subclass_with_meta yank_fields_example props_example CreatePerson [INonClass ''Node'']
       (AVal PNone) (AVal PNone) None None
     = ([], Inl (TypeError ''issubclass() arg 1 must be a class''))"
  by (simp add: init_subclass_with_meta_def)

text \<open>
  Claim C8: the definition of the class docstring, with one string argument \<open>name\<close>, fields
  \<open>ok\<close> and \<open>person\<close> and a mutate function. Its options have the output type, fields and
  arguments the claim says. Its resolver, called with \<^verbatim>\<open>name="A"\<close>, does not reach mutate:
  \<^verbatim>\<open>run_validators\<close> asks the string for its keys and raises AttributeError.
\<close>

theorem CreatePerson_resolver_raises:
  "init_subclass_with_meta yank_fields_example props_example CreatePerson []
       (AVal PNone) (AVal PNone) None None =
     ([], Inr \<lparr>meta_fields = Some [(''ok'', ''Boolean''), (''person'', ''Person'')],
               meta_interfaces = [],
               meta_output = Some (Self CreatePerson),
               meta_resolver = Some (Generated [(''name'', Argument ''String'' [])] (AFunc mutate_example)),
               meta_arguments = Some [(''name'', Argument ''String'' [])],
               meta_description = None\<rparr>)
   \<and> call_resolver (Generated [(''name'', Argument ''String'' [])] (AFunc mutate_example))
        [PObj ''parent'', PObj ''info''] [(''name'', PStr ''A'')]
      = ([], Inl (AttributeError ''keys''))"
  by (simp add: init_subclass_with_meta_def MutationOptions_def getattr_default_def CreatePerson_def
      collect_fields_def dict_update_def yank_fields_example_def resolve_arguments_def
      props_example_def resolve_resolver_def resolver_def run_validators_def)




text \<open>
  Claim C10: without Meta arguments, a definition with both an \<^verbatim>\<open>Arguments\<close> and an
  \<^verbatim>\<open>Input\<close> class takes its arguments from \<^verbatim>\<open>Arguments\<close>, emits no warning, and the
  \<^verbatim>\<open>Input\<close> class plays no part: any definition with the same \<^verbatim>\<open>Arguments\<close> resolves
  to the same arguments and warnings.
\<close>

theorem arguments_preferred_over_input:
  assumes "arguments0 = None \<or> arguments0 = Some []"
    and "truthy_attr (getattr_default cls ''Arguments'')"
    and "truthy_attr (getattr_default cls ''Input'')"
    and "init_subclass_with_meta yank props cls interfaces resolver0 output0 arguments0 meta0 = (w, Inr m)"
  shows "meta_arguments m = Some (props (getattr_default cls ''Arguments'')) \<and> w = []
         \<and> (getattr_default cls' ''Arguments'' = getattr_default cls ''Arguments''
              \<longrightarrow> resolve_arguments props cls' arguments0 = resolve_arguments props cls arguments0)"
  using init_arguments [OF assms(4)] assms(1,2)
  by (auto simp: resolve_arguments_def Let_def)

theorem arguments_preferred_over_input_witness:
  "fst (init_subclass_with_meta yank_fields_example props_example PayloadMutation [Node]
       (AVal PNone) (AVal PNone) None None) = []
   \<and> props_example (getattr_default PayloadMutation ''Arguments'') = [(''name'', Argument ''String'' [])]
   \<and> props_example (getattr_default PayloadMutation ''Input'') = [(''title'', Argument ''String'' [])]"
proof -
  have 1: "(None :: arguments option) = None \<or> (None :: arguments option) = Some []" by simp
  have 2: "truthy_attr (getattr_default PayloadMutation ''Arguments'')"
    by (simp add: getattr_default_def PayloadMutation_def)
  have 3: "truthy_attr (getattr_default PayloadMutation ''Input'')"
    by (simp add: getattr_default_def PayloadMutation_def)
  have 4: "init_subclass_with_meta yank_fields_example props_example PayloadMutation [Node]
       (AVal PNone) (AVal PNone) None None =
     ([], Inr \<lparr>meta_fields = Some [(''id'', ''ID'')],
               meta_interfaces = [Node],
               meta_output = Some (Given (AClass ''Payload'')),
               meta_resolver = Some (Generated [(''name'', Argument ''String'' [])] (AFunc mutate_example)),
               meta_arguments = Some [(''name'', Argument ''String'' [])],
               meta_description = None\<rparr>)"
    by (simp add: init_subclass_with_meta_def MutationOptions_def getattr_default_def
        PayloadMutation_def Node_def dict_update_def
        resolve_arguments_def props_example_def resolve_resolver_def)
  from arguments_preferred_over_input [OF 1 2 3 4, of PayloadMutation] 4 show ?thesis
    by (simp add: getattr_default_def PayloadMutation_def props_example_def)
qed

end
